theory Spec2Isabelle
  imports Main
begin

section \<open>Exceptions, observable events and collaborators\<close>

text \<open>
  The worker of \<^verbatim>\<open>kafka-network-automation.py\<close> talks to three collaborators: the
  etcd client (get, put, lock acquire, lock release), the Kafka consumer (iteration,
  commit) and the device work that runs under the lock. The model records every call to a
  collaborator and every log line as an event, in program order, and takes the outcome of
  every call from an environment record, so that each way a call can end is a branch.

  Python exceptions are values. The only handler of the program is
  \<^verbatim>\<open>except RuntimeError\<close>, which also catches every subclass, so an exception is
  either a \<open>RuntimeError\<close> (the class or a subclass) or anything else.
\<close>

datatype exn = RuntimeError string | OtherError string

fun is_RuntimeError :: "exn \<Rightarrow> bool" where
  "is_RuntimeError (RuntimeError _) = True"
| "is_RuntimeError (OtherError _) = False"

datatype event =
    ConsumerStart
  | ConsumerStop
  | LogReceived string string
  | EtcdGet string
  | LogSkipping string
  | Commit
  | LogAcquiring string
  | LockAcquire string
  | LogConfiguring string
  | Work string
  | EtcdPut string string
  | LogFinished string
  | LockRelease string
  | LogReleased string
  | LogCommitted int
  | LogDeviceLocked string
  | Sleep nat

text \<open>
  The etcd key space that holds the completion markers: key to stored bytes.
\<close>

type_synonym ledger = "string \<rightharpoonup> string"

text \<open>
  What the collaborators do during the handling of one message. \<open>None\<close> in a
  \<open>_raises\<close> field means that the call returns normally. \<open>acquire_result\<close> is what
  \<^verbatim>\<open>lock.acquire\<close> does: it raises, or it returns the boolean "acquired".
\<close>

record env =
  get_raises :: "exn option"
  acquire_result :: "exn + bool"
  work_raises :: "exn option"
  put_raises :: "exn option"
  release_raises :: "exn option"
  commit_raises :: "exn option"

text \<open>
  A consumed record: \<open>decoded\<close> is the result of \<^verbatim>\<open>json.loads(msg.value)\<close>, \<open>None\<close>
  when decoding raises, otherwise the fields of the object; \<open>offset\<close> is
  \<^verbatim>\<open>msg.offset\<close>.
\<close>

record message =
  decoded :: "(string \<times> string) list option"
  offset :: int

section \<open>The lock guard: class AsyncNetworkDeviceLock\<close>

record guard =
  lock_name :: string
  ttl :: nat
  is_locked :: bool

text \<open>\<^verbatim>\<open>__init__\<close>: builds the lock object without talking to the store.\<close>

definition init_guard :: "string \<Rightarrow> guard" where
  "init_guard device_name =
     \<lparr>lock_name = ''/locks/device/'' @ device_name, ttl = 60, is_locked = False\<rparr>"

text \<open>
  \<^verbatim>\<open>__aenter__\<close>: logs, calls \<^verbatim>\<open>lock.acquire\<close>, raises \<open>RuntimeError\<close> when the
  lock was not acquired, and otherwise sets \<open>is_locked\<close>.
\<close>

definition aenter :: "env \<Rightarrow> guard \<Rightarrow> (exn + guard) \<times> event list" where
  "aenter e g =
     (case acquire_result e of
        Inl x \<Rightarrow> (Inl x, [LogAcquiring (lock_name g), LockAcquire (lock_name g)])
      | Inr acquired \<Rightarrow>
          if \<not> acquired then
            (Inl (RuntimeError
                    (''AsyncNetworkDeviceLock|could not acquire lock for '' @ lock_name g)),
             [LogAcquiring (lock_name g), LockAcquire (lock_name g)])
          else
            (Inr (g\<lparr>is_locked := True\<rparr>),
             [LogAcquiring (lock_name g), LockAcquire (lock_name g)]))"

text \<open>
  \<^verbatim>\<open>__aexit__\<close>: ignores the exception it is given; when \<open>is_locked\<close> it calls
  \<^verbatim>\<open>lock.release\<close>, clears the flag and logs. It returns \<open>None\<close>, so it never
  suppresses the exception of the body; an exception of \<^verbatim>\<open>lock.release\<close> leaves it
  (\<open>Inl\<close>).
\<close>

definition aexit :: "env \<Rightarrow> guard \<Rightarrow> exn option \<Rightarrow> (exn + guard) \<times> event list" where
  "aexit e g exc =
     (if is_locked g then
        (case release_raises e of
           Some x \<Rightarrow> (Inl x, [LockRelease (lock_name g)])
         | None \<Rightarrow>
             (Inr (g\<lparr>is_locked := False\<rparr>),
              [LockRelease (lock_name g), LogReleased (lock_name g)]))
      else (Inr g, []))"

section \<open>The orchestrator: process\_jobs\<close>

text \<open>Lines 76 to 78: decoding the record and reading its two fields.\<close>

definition job_of :: "message \<Rightarrow> exn + (string \<times> string)" where
  "job_of msg =
     (case decoded msg of
        None \<Rightarrow> Inl (OtherError ''JSONDecodeError'')
      | Some payload \<Rightarrow>
          (case map_of payload ''job_id'' of
             None \<Rightarrow> Inl (OtherError ''KeyError'')
           | Some job_id \<Rightarrow>
               (case map_of payload ''device'' of
                  None \<Rightarrow> Inl (OtherError ''KeyError'')
                | Some device \<Rightarrow> Inr (job_id, device))))"

definition job_status_key :: "string \<Rightarrow> string" where
  "job_status_key job_id = ''/jobs/'' @ job_id @ ''/status''"

text \<open>\<^verbatim>\<open>check_status\<close> through the executor: the value stored under the key.\<close>

definition check_status :: "env \<Rightarrow> ledger \<Rightarrow> string \<Rightarrow> (exn + string option) \<times> event list" where
  "check_status e led key =
     (case get_raises e of
        Some x \<Rightarrow> (Inl x, [EtcdGet key])
      | None \<Rightarrow> (Inr (led key), [EtcdGet key]))"

text \<open>
  The test of line 91, \<^verbatim>\<open>current_value and current_value == b"COMPLETED"\<close>: the
  value is truthy (neither \<open>None\<close> nor empty) and equal to the marker.
\<close>

definition already_completed :: "string option \<Rightarrow> bool" where
  "already_completed current_value =
     ((case current_value of None \<Rightarrow> False | Some v \<Rightarrow> v \<noteq> [])
      \<and> current_value = Some ''COMPLETED'')"

text \<open>
  \<^verbatim>\<open>mark_complete\<close> through the executor: the put of the marker. A put that raises
  is taken to leave the store as it was.
\<close>

definition mark_complete :: "env \<Rightarrow> ledger \<Rightarrow> string \<Rightarrow> exn option \<times> event list \<times> ledger" where
  "mark_complete e led key =
     (case put_raises e of
        Some x \<Rightarrow> (Some x, [EtcdPut key ''COMPLETED''], led)
      | None \<Rightarrow> (None, [EtcdPut key ''COMPLETED''], led(key \<mapsto> ''COMPLETED'')))"

text \<open>
  Lines 104 to 116, the body of the \<^verbatim>\<open>async with\<close>: the device work (in the source a
  two-second sleep standing for the network code, here the event \<open>Work\<close>), then the
  marker. The result is the exception that leaves the body, if any.
\<close>

definition locked_body ::
  "env \<Rightarrow> string \<Rightarrow> string \<Rightarrow> ledger \<Rightarrow> exn option \<times> event list \<times> ledger" where
  "locked_body e job_id device led =
     (case work_raises e of
        Some x \<Rightarrow> (Some x, [LogConfiguring device, Work device], led)
      | None \<Rightarrow>
          (case mark_complete e led (job_status_key job_id) of
             (Some x, evs, led') \<Rightarrow> (Some x, [LogConfiguring device, Work device] @ evs, led')
           | (None, evs, led') \<Rightarrow>
               (None, [LogConfiguring device, Work device] @ evs @ [LogFinished job_id], led')))"

text \<open>
  Line 101, \<^verbatim>\<open>async with AsyncNetworkDeviceLock(etcd_client, device)\<close>: when
  \<^verbatim>\<open>__aenter__\<close> raises, neither the body nor \<^verbatim>\<open>__aexit__\<close> runs; otherwise the
  body runs and \<^verbatim>\<open>__aexit__\<close> runs whatever the body did. An exception of
  \<^verbatim>\<open>__aexit__\<close> replaces the one of the body.
\<close>

definition with_lock ::
  "env \<Rightarrow> string \<Rightarrow> string \<Rightarrow> ledger \<Rightarrow> exn option \<times> event list \<times> ledger" where
  "with_lock e job_id device led =
     (case aenter e (init_guard device) of
        (Inl x, evs) \<Rightarrow> (Some x, evs, led)
      | (Inr g, evs) \<Rightarrow>
          (case locked_body e job_id device led of
             (exc, bevs, led') \<Rightarrow>
               (case aexit e g exc of
                  (Inl x, xevs) \<Rightarrow> (Some x, evs @ bevs @ xevs, led')
                | (Inr g', xevs) \<Rightarrow> (exc, evs @ bevs @ xevs, led'))))"

text \<open>Lines 100 to 121, the body of the \<^verbatim>\<open>try\<close>: the guarded section, then the commit.\<close>

definition try_body ::
  "env \<Rightarrow> message \<Rightarrow> string \<Rightarrow> string \<Rightarrow> ledger \<Rightarrow> exn option \<times> event list \<times> ledger" where
  "try_body e msg job_id device led =
     (case with_lock e job_id device led of
        (Some x, evs, led') \<Rightarrow> (Some x, evs, led')
      | (None, evs, led') \<Rightarrow>
          (case commit_raises e of
             Some x \<Rightarrow> (Some x, evs @ [Commit], led')
           | None \<Rightarrow> (None, evs @ [Commit, LogCommitted (offset msg)], led')))"

text \<open>
  One pass through the body of the \<^verbatim>\<open>async for\<close> (lines 76 to 126). \<open>Continue\<close>: the
  loop goes on to the next record; \<open>Propagate x\<close>: the exception \<open>x\<close> leaves the loop.
\<close>

datatype outcome = Continue | Propagate exn

definition handle_message :: "env \<Rightarrow> message \<Rightarrow> ledger \<Rightarrow> outcome \<times> event list \<times> ledger" where
  "handle_message e msg led =
     (case job_of msg of
        Inl x \<Rightarrow> (Propagate x, [], led)
      | Inr (job_id, device) \<Rightarrow>
          (case check_status e led (job_status_key job_id) of
             (Inl x, evs) \<Rightarrow> (Propagate x, [LogReceived job_id device] @ evs, led)
           | (Inr current_value, evs) \<Rightarrow>
               if already_completed current_value then
                 (case commit_raises e of
                    Some x \<Rightarrow>
                      (Propagate x,
                       [LogReceived job_id device] @ evs @ [LogSkipping job_id, Commit], led)
                  | None \<Rightarrow>
                      (Continue,
                       [LogReceived job_id device] @ evs @ [LogSkipping job_id, Commit], led))
               else
                 (case try_body e msg job_id device led of
                    (None, tevs, led') \<Rightarrow>
                      (Continue, [LogReceived job_id device] @ evs @ tevs, led')
                  | (Some x, tevs, led') \<Rightarrow>
                      if is_RuntimeError x then
                        (Continue,
                         [LogReceived job_id device] @ evs @ tevs
                           @ [LogDeviceLocked device, Sleep 5],
                         led')
                      else
                        (Propagate x, [LogReceived job_id device] @ evs @ tevs, led'))))"

text \<open>
  The \<^verbatim>\<open>async for\<close> over a finite feed: each record comes with what the collaborators
  do while it is handled. The loop ends with the feed or with the first exception that
  propagates.
\<close>

fun consume :: "(message \<times> env) list \<Rightarrow> ledger \<Rightarrow> exn option \<times> event list \<times> ledger" where
  "consume [] led = (None, [], led)"
| "consume ((msg, e) # feed) led =
     (case handle_message e msg led of
        (Propagate x, evs, led') \<Rightarrow> (Some x, evs, led')
      | (Continue, evs, led') \<Rightarrow>
          (case consume feed led' of
             (r, evs', led'') \<Rightarrow> (r, evs @ evs', led'')))"

text \<open>
  \<^verbatim>\<open>process_jobs\<close>: start the consumer, run the loop, and stop the consumer in the
  \<^verbatim>\<open>finally\<close>. An exception of \<^verbatim>\<open>consumer.start\<close> leaves before the \<^verbatim>\<open>try\<close>; an
  exception of \<^verbatim>\<open>consumer.stop\<close> replaces the one of the loop.
\<close>

definition process_jobs ::
  "exn option \<Rightarrow> exn option \<Rightarrow> (message \<times> env) list \<Rightarrow> ledger
     \<Rightarrow> exn option \<times> event list \<times> ledger" where
  "process_jobs start_raises stop_raises feed led =
     (case start_raises of
        Some x \<Rightarrow> (Some x, [ConsumerStart], led)
      | None \<Rightarrow>
          (case consume feed led of
             (r, evs, led') \<Rightarrow>
               (case stop_raises of
                  Some x \<Rightarrow> (Some x, [ConsumerStart] @ evs @ [ConsumerStop], led')
                | None \<Rightarrow> (r, [ConsumerStart] @ evs @ [ConsumerStop], led'))))"

section \<open>Order of events\<close>

text \<open>
  \<open>precedes a b evs\<close>: \<open>a\<close> occurs in \<open>evs\<close> and no \<open>b\<close> occurs before the first \<open>a\<close>.
\<close>

definition precedes :: "event \<Rightarrow> event \<Rightarrow> event list \<Rightarrow> bool" where
  "precedes a b evs = (a \<in> set evs \<and> b \<notin> set (takeWhile (\<lambda>x. x \<noteq> a) evs))"

section \<open>The committed position\<close>

text \<open>
  Both commits of the program (lines 95 and 120) are \<^verbatim>\<open>consumer.commit()\<close> without
  offsets: the call commits the position of the consumer, which is one past the offset
  of the last record that the iterator has returned. \<open>commit_returned\<close>: the pass made
  the call and the call returned. \<open>committed_position\<close>: the position that the loop has
  committed when it ends, starting from \<open>pos\<close>. \<open>acknowledged\<close>: the committed
  position lies past the record, so the broker will not deliver it again.
\<close>

definition commit_returned :: "env \<Rightarrow> event list \<Rightarrow> bool" where
  "commit_returned e evs = (Commit \<in> set evs \<and> commit_raises e = None)"

fun committed_position :: "(message \<times> env) list \<Rightarrow> ledger \<Rightarrow> int option \<Rightarrow> int option" where
  "committed_position [] led pos = pos"
| "committed_position ((msg, e) # feed) led pos =
     (case handle_message e msg led of
        (Propagate x, evs, led') \<Rightarrow>
          (if commit_returned e evs then Some (offset msg + 1) else pos)
      | (Continue, evs, led') \<Rightarrow>
          committed_position feed led'
            (if commit_returned e evs then Some (offset msg + 1) else pos))"

definition acknowledged :: "message \<Rightarrow> int option \<Rightarrow> bool" where
  "acknowledged msg pos = (case pos of None \<Rightarrow> False | Some p \<Rightarrow> offset msg < p)"

section \<open>Sample inputs\<close>

text \<open>
  The job of the spec's scenario, and an environment in which every call returns normally
  and the lock is granted.
\<close>

definition job42 :: message where
  "job42 = \<lparr>decoded = Some [(''job_id'', ''42''), (''device'', ''r1'')], offset = 7\<rparr>"

definition calm :: env where
  "calm = \<lparr>get_raises = None, acquire_result = Inr True, work_raises = None,
            put_raises = None, release_raises = None, commit_raises = None\<rparr>"

text \<open>
  The job of the spec's lock-contention scenario, and a job for another device that
  follows it in the stream.
\<close>

definition job43 :: message where
  "job43 = \<lparr>decoded = Some [(''job_id'', ''43''), (''device'', ''r1'')], offset = 8\<rparr>"

definition job44 :: message where
  "job44 = \<lparr>decoded = Some [(''job_id'', ''44''), (''device'', ''r2'')], offset = 9\<rparr>"

section \<open>Basic facts\<close>

lemma job_of_job42: "job_of job42 = Inr (''42'', ''r1'')"
  by (simp add: job_of_def job42_def)

lemma offset_job42: "offset job42 = 7"
  by (simp add: job42_def)

lemma job_of_job43: "job_of job43 = Inr (''43'', ''r1'')"
  by (simp add: job_of_def job43_def)

lemma offset_job43: "offset job43 = 8"
  by (simp add: job43_def)

lemma job_of_job44: "job_of job44 = Inr (''44'', ''r2'')"
  by (simp add: job_of_def job44_def)

lemma offset_job44: "offset job44 = 9"
  by (simp add: job44_def)

lemma already_completed_iff: "already_completed v \<longleftrightarrow> v = Some ''COMPLETED''"
  by (cases v) (auto simp: already_completed_def)

lemmas run_defs = handle_message_def check_status_def try_body_def with_lock_def aenter_def
  aexit_def locked_body_def mark_complete_def init_guard_def already_completed_iff

lemmas sample_simps = job_of_job42 offset_job42 job_of_job43 offset_job43 job_of_job44
  offset_job44 calm_def job_status_key_def commit_returned_def acknowledged_def

lemma consume_Continue:
  "handle_message e msg led = (Continue, evs, led') \<Longrightarrow>
   consume ((msg, e) # feed) led =
     (fst (consume feed led'), evs @ fst (snd (consume feed led')), snd (snd (consume feed led')))"
  by (simp split: prod.splits)

lemma consume_Propagate:
  "handle_message e msg led = (Propagate x, evs, led') \<Longrightarrow>
   consume ((msg, e) # feed) led = (Some x, evs, led')"
  by simp

section \<open>Marker before acknowledgment\<close>



section \<open>Deduplication\<close>

text \<open>
  Claim C2. When the ledger read returns \<open>COMPLETED\<close> for the job's key, the pass
  consists of the receipt log, the read, the skip warning and the commit, and leaves the
  ledger as it was: the lock is not requested and the work is not run. When the commit
  returns, the loop goes on with the rest of the feed.
\<close>

theorem completed_job_skipped:
  assumes "job_of msg = Inr (job_id, device)"
    and "get_raises e = None"
    and "led (job_status_key job_id) = Some ''COMPLETED''"
  shows "snd (handle_message e msg led) =
           ([LogReceived job_id device, EtcdGet (job_status_key job_id),
             LogSkipping job_id, Commit], led)
         \<and> (commit_raises e = None \<longrightarrow>
              consume ((msg, e) # feed) led =
                (fst (consume feed led),
                 [LogReceived job_id device, EtcdGet (job_status_key job_id),
                  LogSkipping job_id, Commit] @ fst (snd (consume feed led)),
                 snd (snd (consume feed led))))"
  using assms
  by (auto simp: run_defs split: option.splits prod.splits)

theorem completed_job_skipped_witness:
  "job_of job42 = Inr (''42'', ''r1'') \<and> get_raises calm = None
   \<and> [''/jobs/42/status'' \<mapsto> ''COMPLETED''] (job_status_key ''42'') = Some ''COMPLETED''
   \<and> commit_raises calm = None
   \<and> consume [(job42, calm)] [''/jobs/42/status'' \<mapsto> ''COMPLETED''] =
       (None,
        [LogReceived ''42'' ''r1'', EtcdGet ''/jobs/42/status'', LogSkipping ''42'', Commit],
        [''/jobs/42/status'' \<mapsto> ''COMPLETED''])"
  using completed_job_skipped [of job42 "''42''" "''r1''" calm
      "[''/jobs/42/status'' \<mapsto> ''COMPLETED'']" "[]"]
  by (simp add: job_of_job42 calm_def job_status_key_def)

section \<open>The success path\<close>

text \<open>
  Claim C3 puts the acknowledgment before the release of the lock. In the source the
  commit of line 120 stands after the \<^verbatim>\<open>async with\<close> block, so the guard releases
  first: in the run of the sample job where everything succeeds, the release comes
  before the commit and the commit does not come before the release.
\<close>

theorem release_before_commit_counterexample:
  "handle_message calm job42 Map.empty =
     (Continue,
      [LogReceived ''42'' ''r1'', EtcdGet ''/jobs/42/status'',
       LogAcquiring ''/locks/device/r1'', LockAcquire ''/locks/device/r1'',
       LogConfiguring ''r1'', Work ''r1'', EtcdPut ''/jobs/42/status'' ''COMPLETED'',
       LogFinished ''42'', LockRelease ''/locks/device/r1'', LogReleased ''/locks/device/r1'',
       Commit, LogCommitted 7],
      [''/jobs/42/status'' \<mapsto> ''COMPLETED''])
   \<and> \<not> precedes Commit (LockRelease ''/locks/device/r1'')
         (fst (snd (handle_message calm job42 Map.empty)))"
  by (simp add: run_defs job_of_job42 offset_job42 calm_def job_status_key_def precedes_def)

text \<open>
  Claim C3 as amended. On the success path the steps are, in this order: the put of
  \<open>COMPLETED\<close> inside the guarded section, the release of the device lock on leaving the
  guard, then the commit.
\<close>

theorem success_path_order:
  assumes "job_of msg = Inr (job_id, device)"
    and "get_raises e = None"
    and "led (job_status_key job_id) \<noteq> Some ''COMPLETED''"
    and "acquire_result e = Inr True"
    and "work_raises e = None"
    and "put_raises e = None"
    and "release_raises e = None"
    and "commit_raises e = None"
  shows "handle_message e msg led =
     (Continue,
      [LogReceived job_id device, EtcdGet (job_status_key job_id),
       LogAcquiring (''/locks/device/'' @ device), LockAcquire (''/locks/device/'' @ device),
       LogConfiguring device, Work device, EtcdPut (job_status_key job_id) ''COMPLETED'',
       LogFinished job_id,
       LockRelease (''/locks/device/'' @ device), LogReleased (''/locks/device/'' @ device),
       Commit, LogCommitted (offset msg)],
      led(job_status_key job_id \<mapsto> ''COMPLETED''))"
  using assms by (simp add: run_defs)

theorem success_path_order_witness:
  "job_of job42 = Inr (''42'', ''r1'') \<and> get_raises calm = None
   \<and> Map.empty (job_status_key ''42'') \<noteq> Some ''COMPLETED''
   \<and> acquire_result calm = Inr True \<and> work_raises calm = None \<and> put_raises calm = None
   \<and> release_raises calm = None \<and> commit_raises calm = None
   \<and> fst (snd (handle_message calm job42 Map.empty)) =
      [LogReceived ''42'' ''r1'', EtcdGet ''/jobs/42/status'',
       LogAcquiring ''/locks/device/r1'', LockAcquire ''/locks/device/r1'',
       LogConfiguring ''r1'', Work ''r1'', EtcdPut ''/jobs/42/status'' ''COMPLETED'',
       LogFinished ''42'', LockRelease ''/locks/device/r1'', LogReleased ''/locks/device/r1'',
       Commit, LogCommitted 7]"
  using success_path_order [of job42 "''42''" "''r1''" calm Map.empty]
  by (simp add: job_of_job42 offset_job42 calm_def job_status_key_def)

section \<open>Lock not obtained\<close>




section \<open>Release on every exit\<close>

text \<open>
  Claim C5. A guard whose \<open>is_locked\<close> flag is set calls \<^verbatim>\<open>lock.release\<close> in
  \<^verbatim>\<open>__aexit__\<close>, whatever exception it is handed. In the \<^verbatim>\<open>async with\<close>, once the
  lock is granted, the release is called after the work on every exit of the body: when
  the body ends normally, when the work raises and when the put raises.
\<close>

theorem release_attempted_on_every_exit:
  "(is_locked g \<longrightarrow> LockRelease (lock_name g) \<in> set (snd (aexit e g exc)))
   \<and> (acquire_result e = Inr True \<longrightarrow>
        precedes (Work device) (LockRelease (''/locks/device/'' @ device))
          (fst (snd (with_lock e job_id device led)))
        \<and> LockRelease (''/locks/device/'' @ device)
            \<in> set (fst (snd (with_lock e job_id device led))))"
  by (auto simp: run_defs precedes_def split: option.splits)

theorem release_attempted_on_every_exit_witness:
  "is_locked ((init_guard ''r1'')\<lparr>is_locked := True\<rparr>)
   \<and> LockRelease ''/locks/device/r1''
        \<in> set (snd (aexit (calm\<lparr>work_raises := Some (OtherError ''timeout'')\<rparr>)
                     ((init_guard ''r1'')\<lparr>is_locked := True\<rparr>)
                     (Some (OtherError ''timeout''))))
   \<and> acquire_result (calm\<lparr>work_raises := Some (OtherError ''timeout'')\<rparr>) = Inr True
   \<and> with_lock (calm\<lparr>work_raises := Some (OtherError ''timeout'')\<rparr>) ''42'' ''r1'' Map.empty =
       (Some (OtherError ''timeout''),
        [LogAcquiring ''/locks/device/r1'', LockAcquire ''/locks/device/r1'',
         LogConfiguring ''r1'', Work ''r1'',
         LockRelease ''/locks/device/r1'', LogReleased ''/locks/device/r1''],
        Map.empty)
   \<and> precedes (Work ''r1'') (LockRelease ''/locks/device/r1'')
        (fst (snd (with_lock (calm\<lparr>work_raises := Some (OtherError ''timeout'')\<rparr>)
                     ''42'' ''r1'' Map.empty)))"
  using release_attempted_on_every_exit [of "(init_guard ''r1'')\<lparr>is_locked := True\<rparr>"
      "calm\<lparr>work_raises := Some (OtherError ''timeout'')\<rparr>" "Some (OtherError ''timeout'')"
      "''r1''" "''42''" Map.empty]
  by (simp add: calm_def run_defs)

section \<open>Failure of the device work\<close>

text \<open>
  Claim C6: when the work raises, the job is not marked, the message is not
  acknowledged, the lock is released and the failure propagates to the caller. The code
  at job 42 whose work raises a \<open>RuntimeError\<close>: the \<^verbatim>\<open>try\<close> of line 99 encloses the
  whole guarded section, so the handler meant for a denied lock catches the exception,
  logs "device is locked", pauses, and the loop continues; \<^verbatim>\<open>process_jobs\<close> returns
  without an exception. The same failure with an exception that is not a
  \<open>RuntimeError\<close> does propagate. When job 44 follows and succeeds, its commit
  acknowledges job 42 as well.
\<close>

theorem work_runtime_error_swallowed:
  "handle_message (calm\<lparr>work_raises := Some (RuntimeError ''ssh'')\<rparr>) job42 Map.empty =
     (Continue,
      [LogReceived ''42'' ''r1'', EtcdGet ''/jobs/42/status'',
       LogAcquiring ''/locks/device/r1'', LockAcquire ''/locks/device/r1'',
       LogConfiguring ''r1'', Work ''r1'',
       LockRelease ''/locks/device/r1'', LogReleased ''/locks/device/r1'',
       LogDeviceLocked ''r1'', Sleep 5],
      Map.empty)
   \<and> fst (process_jobs None None
             [(job42, calm\<lparr>work_raises := Some (RuntimeError ''ssh'')\<rparr>)] Map.empty) = None
   \<and> fst (process_jobs None None
             [(job42, calm\<lparr>work_raises := Some (OtherError ''timeout'')\<rparr>)] Map.empty)
       = Some (OtherError ''timeout'')
   \<and> acknowledged job42
        (committed_position
           [(job42, calm\<lparr>work_raises := Some (RuntimeError ''ssh'')\<rparr>), (job44, calm)]
           Map.empty None)"
  by (simp add: run_defs process_jobs_def sample_simps)

section \<open>Failure of the ledger read\<close>

text \<open>
  Claim C7 says that a failed ledger read is treated as "not completed" and that the
  lock is then requested. The read of line 89 stands outside the \<^verbatim>\<open>try\<close> of line 99
  and has no handler of its own: when it raises, the exception leaves the pass and the
  lock is never requested.
\<close>

theorem ledger_read_failure_counterexample:
  "get_raises (calm\<lparr>get_raises := Some (OtherError ''ConnectionFailedError'')\<rparr>)
     = Some (OtherError ''ConnectionFailedError'')
   \<and> handle_message (calm\<lparr>get_raises := Some (OtherError ''ConnectionFailedError'')\<rparr>)
        job42 Map.empty =
       (Propagate (OtherError ''ConnectionFailedError''),
        [LogReceived ''42'' ''r1'', EtcdGet ''/jobs/42/status''],
        Map.empty)
   \<and> LockAcquire ''/locks/device/r1''
        \<notin> set (fst (snd (handle_message
                  (calm\<lparr>get_raises := Some (OtherError ''ConnectionFailedError'')\<rparr>)
                  job42 Map.empty)))"
  by (simp add: run_defs job_of_job42 calm_def job_status_key_def)

text \<open>
  Claim C7 as amended. When the ledger read raises, of whatever class the exception is,
  the pass ends after the read with that exception: no lock request, no work, no put, no
  commit. The loop ends, the consumer is stopped and \<^verbatim>\<open>process_jobs\<close> raises the
  exception.
\<close>

theorem ledger_read_failure_propagates:
  assumes "job_of msg = Inr (job_id, device)"
    and "get_raises e = Some x"
  shows "handle_message e msg led =
           (Propagate x, [LogReceived job_id device, EtcdGet (job_status_key job_id)], led)
         \<and> process_jobs None None ((msg, e) # feed) led =
             (Some x,
              [ConsumerStart, LogReceived job_id device, EtcdGet (job_status_key job_id),
               ConsumerStop],
              led)"
  using assms by (simp add: run_defs process_jobs_def)

theorem ledger_read_failure_propagates_witness:
  "job_of job42 = Inr (''42'', ''r1'')
   \<and> get_raises (calm\<lparr>get_raises := Some (RuntimeError ''executor shut down'')\<rparr>)
       = Some (RuntimeError ''executor shut down'')
   \<and> process_jobs None None
       [(job42, calm\<lparr>get_raises := Some (RuntimeError ''executor shut down'')\<rparr>), (job42, calm)]
       Map.empty =
       (Some (RuntimeError ''executor shut down''),
        [ConsumerStart, LogReceived ''42'' ''r1'', EtcdGet ''/jobs/42/status'', ConsumerStop],
        Map.empty)"
  using ledger_read_failure_propagates [of job42 "''42''" "''r1''"
      "calm\<lparr>get_raises := Some (RuntimeError ''executor shut down'')\<rparr>"
      "RuntimeError ''executor shut down''" Map.empty "[(job42, calm)]"]
  by (simp add: job_of_job42 calm_def job_status_key_def)

section \<open>Failure of the marker write\<close>

text \<open>
  Claim C8: when the work returns and the put of the marker fails, the message is not
  acknowledged in that pass and the failure surfaces as an error. The code at job 42
  whose put raises a \<open>RuntimeError\<close>: no commit is made, but the handler of line 123
  catches the exception and reports a locked device; the pass ends with that log and the
  pause, and \<^verbatim>\<open>process_jobs\<close> returns without an exception. The same failure with an
  exception that is not a \<open>RuntimeError\<close> does propagate.
\<close>

theorem marker_write_runtime_error_swallowed:
  "handle_message (calm\<lparr>put_raises := Some (RuntimeError ''executor shut down'')\<rparr>)
     job42 Map.empty =
     (Continue,
      [LogReceived ''42'' ''r1'', EtcdGet ''/jobs/42/status'',
       LogAcquiring ''/locks/device/r1'', LockAcquire ''/locks/device/r1'',
       LogConfiguring ''r1'', Work ''r1'', EtcdPut ''/jobs/42/status'' ''COMPLETED'',
       LockRelease ''/locks/device/r1'', LogReleased ''/locks/device/r1'',
       LogDeviceLocked ''r1'', Sleep 5],
      Map.empty)
   \<and> process_jobs None None
        [(job42, calm\<lparr>put_raises := Some (RuntimeError ''executor shut down'')\<rparr>)] Map.empty =
       (None,
        [ConsumerStart,
         LogReceived ''42'' ''r1'', EtcdGet ''/jobs/42/status'',
         LogAcquiring ''/locks/device/r1'', LockAcquire ''/locks/device/r1'',
         LogConfiguring ''r1'', Work ''r1'', EtcdPut ''/jobs/42/status'' ''COMPLETED'',
         LockRelease ''/locks/device/r1'', LogReleased ''/locks/device/r1'',
         LogDeviceLocked ''r1'', Sleep 5,
         ConsumerStop],
        Map.empty)
   \<and> fst (process_jobs None None
             [(job42, calm\<lparr>put_raises := Some (OtherError ''ConnectionFailedError'')\<rparr>)]
             Map.empty)
       = Some (OtherError ''ConnectionFailedError'')"
  by (simp add: run_defs process_jobs_def sample_simps)

section \<open>The single handler\<close>



section \<open>The exact marker\<close>

text \<open>
  Claim C10. Given that the ledger read returns, the pass takes the skip branch exactly
  when the stored value is \<open>COMPLETED\<close>, and requests the lock exactly when it is
  anything else or absent. In the latter case, when the lock is granted and the work and
  the put return, the put is made and the key holds \<open>COMPLETED\<close> afterwards, whatever it
  held before.
\<close>

theorem dedup_only_on_exact_marker:
  assumes "job_of msg = Inr (job_id, device)"
    and "get_raises e = None"
    and "handle_message e msg led = (out, evs, led')"
  shows "(LogSkipping job_id \<in> set evs \<longleftrightarrow> led (job_status_key job_id) = Some ''COMPLETED'')
         \<and> (LockAcquire (''/locks/device/'' @ device) \<in> set evs
              \<longleftrightarrow> led (job_status_key job_id) \<noteq> Some ''COMPLETED'')
         \<and> (led (job_status_key job_id) \<noteq> Some ''COMPLETED''
              \<and> acquire_result e = Inr True \<and> work_raises e = None \<and> put_raises e = None
              \<longrightarrow> EtcdPut (job_status_key job_id) ''COMPLETED'' \<in> set evs
                  \<and> led' = led(job_status_key job_id \<mapsto> ''COMPLETED''))"
  using assms
  by (auto simp: run_defs split: option.splits if_splits sum.splits)

theorem dedup_only_on_exact_marker_witness:
  "job_of job42 = Inr (''42'', ''r1'') \<and> get_raises calm = None
   \<and> [''/jobs/42/status'' \<mapsto> ''completed''] (job_status_key ''42'') \<noteq> Some ''COMPLETED''
   \<and> acquire_result calm = Inr True \<and> work_raises calm = None \<and> put_raises calm = None
   \<and> LogSkipping ''42''
       \<notin> set (fst (snd (handle_message calm job42 [''/jobs/42/status'' \<mapsto> ''completed''])))
   \<and> LockAcquire ''/locks/device/r1''
       \<in> set (fst (snd (handle_message calm job42 [''/jobs/42/status'' \<mapsto> ''completed''])))
   \<and> snd (snd (handle_message calm job42 [''/jobs/42/status'' \<mapsto> ''completed'']))
       = [''/jobs/42/status'' \<mapsto> ''COMPLETED'']"
  using dedup_only_on_exact_marker [of job42 "''42''" "''r1''" calm
      "[''/jobs/42/status'' \<mapsto> ''completed'']"
      "fst (handle_message calm job42 [''/jobs/42/status'' \<mapsto> ''completed''])"
      "fst (snd (handle_message calm job42 [''/jobs/42/status'' \<mapsto> ''completed'']))"
      "snd (snd (handle_message calm job42 [''/jobs/42/status'' \<mapsto> ''completed'']))"]
  by (simp add: run_defs job_of_job42 calm_def job_status_key_def)

end
